theory Spec2Isabelle
  imports Complex_Main
begin

section \<open>Numbers, errors and the tolerance\<close>

text \<open>
  The geometry module computes on Python numbers. The module is modelled twice. The
  first model, in this and the next sections, takes coordinates and coefficients as
  \<^typ>\<open>real\<close> with exact addition, subtraction, multiplication and division. It
  keeps the control flow of the program: a division by zero raises
  \<open>ZeroDivisionError\<close>, and \<open>slope\<close> and \<open>intercept\<close> catch it and
  answer \<open>float('inf')\<close>, a value of its own that is equal to itself and different
  from every finite number. The properties that are about branches, exceptions and the
  pairing of vertices and edges are stated on it. The second model, further down, rounds
  the result of every operation to a double, as the program does; the properties that
  depend on what \<open>in\<close> and \<open>==\<close> answer on computed values are stated on
  that one.
\<close>

datatype error =
  ZeroDivisionError | GeometryException | AssertionError | AttributeError | ValueError | TypeError

datatype number = Fin real | Inf

text \<open>\<open>EPSILON = Epsilon(1e-6)\<close>, the global precision.\<close>

definition EPSILON :: real where
  "EPSILON = 1 / 1000000"

text \<open>Python's \<open>p / q\<close> on numbers.\<close>

definition py_div :: "real \<Rightarrow> real \<Rightarrow> error + real" where
  "py_div p q = (if q = 0 then Inl ZeroDivisionError else Inr (p / q))"

text \<open>Sequencing of computations that may raise.\<close>

definition bind_err :: "error + 'a \<Rightarrow> ('a \<Rightarrow> error + 'b) \<Rightarrow> error + 'b" where
  "bind_err m f = (case m of Inl e \<Rightarrow> Inl e | Inr v \<Rightarrow> f v)"

text \<open>A list comprehension whose element expression may raise: the first error wins.\<close>

fun collect :: "(error + 'a) list \<Rightarrow> error + 'a list" where
  "collect [] = Inr []"
| "collect (m # ms) =
     (case m of
        Inl e \<Rightarrow> Inl e
      | Inr v \<Rightarrow> (case collect ms of Inl e \<Rightarrow> Inl e | Inr vs \<Rightarrow> Inr (v # vs)))"

section \<open>Points and lines\<close>

text \<open>
  The dataclasses \<open>Point(x, y)\<close>, \<open>Line(a, b, c)\<close> (the line
  \<open>a*x + b*y + c = 0\<close>) and \<open>Segment(A, B)\<close>. The fields carry a prefix,
  since a record field is a constant of the whole theory.
\<close>

record Point =
  pt_x :: real
  pt_y :: real

record Line =
  ln_a :: real
  ln_b :: real
  ln_c :: real

record Segment =
  seg_A :: Point
  seg_B :: Point

text \<open>What \<open>Line.intersect\<close> returns when it returns a value; Python's \<open>None\<close>
  is \<^const>\<open>None\<close>.\<close>

datatype shape = IsPoint Point | IsLine Line

text \<open>\<open>gradient(p, q)\<close>: the slope of the pair, \<open>(py - qy) / (px - qx)\<close>.\<close>

definition gradient :: "Point \<Rightarrow> Point \<Rightarrow> error + real" where
  "gradient p q = py_div (pt_y p - pt_y q) (pt_x p - pt_x q)"

text \<open>\<open>statistics.mean\<close> on a non-empty column of numbers.\<close>

definition mean :: "real list \<Rightarrow> real" where
  "mean xs = sum_list xs / real (length xs)"

text \<open>\<open>midpoint(*p) = tuple(map(mean, zip(*p)))\<close>: no point gives the empty tuple,
  otherwise the tuple of the two column means.\<close>

definition midpoint :: "Point list \<Rightarrow> real list" where
  "midpoint ps = (if ps = [] then [] else [mean (map pt_x ps), mean (map pt_y ps)])"

text \<open>\<open>Point(*t)\<close>: the constructor applied to an unpacked tuple.\<close>

definition Point_of_tuple :: "real list \<Rightarrow> error + Point" where
  "Point_of_tuple t = (case t of [x, y] \<Rightarrow> Inr \<lparr>pt_x = x, pt_y = y\<rparr> | _ \<Rightarrow> Inl TypeError)"


text \<open>\<open>Line.__contains__\<close>.\<close>

definition Line_contains :: "Line \<Rightarrow> Point \<Rightarrow> bool" where
  "Line_contains l point \<longleftrightarrow> \<bar>ln_a l * pt_x point + ln_b l * pt_y point + ln_c l\<bar> \<le> EPSILON"

text \<open>\<open>Line.x\<close>, the x intercept as a point, \<open>None\<close> when \<open>a == 0\<close>.\<close>

definition Line_x :: "Line \<Rightarrow> Point option" where
  "Line_x l = (if ln_a l = 0 then None else Some \<lparr>pt_x = - ln_c l / ln_a l, pt_y = 0\<rparr>)"

text \<open>\<open>Line.y\<close>, the y intercept as a point, \<open>None\<close> when \<open>b == 0\<close>.\<close>

definition Line_y :: "Line \<Rightarrow> Point option" where
  "Line_y l = (if ln_b l = 0 then None else Some \<lparr>pt_x = 0, pt_y = - ln_c l / ln_b l\<rparr>)"

text \<open>\<open>Line.slope\<close> and \<open>Line.intercept\<close>: the division, with
  \<open>ZeroDivisionError\<close> caught and turned into infinity.\<close>

definition Line_slope :: "Line \<Rightarrow> number" where
  "Line_slope l =
     (case py_div (- ln_a l) (ln_b l) of Inr v \<Rightarrow> Fin v | Inl _ \<Rightarrow> Inf)"

definition Line_intercept :: "Line \<Rightarrow> number" where
  "Line_intercept l =
     (case py_div (- ln_c l) (ln_b l) of Inr v \<Rightarrow> Fin v | Inl _ \<Rightarrow> Inf)"

text \<open>\<open>Line.__eq__\<close> between two lines: same slope and same intercept.\<close>

definition Line_eq :: "Line \<Rightarrow> Line \<Rightarrow> bool" where
  "Line_eq l other \<longleftrightarrow>
     Line_slope l = Line_slope other \<and> Line_intercept l = Line_intercept other"

text \<open>\<open>Line.__call__(x=None, y=None)\<close>; an argument left out is \<^const>\<open>None\<close>.\<close>

definition Line_call :: "Line \<Rightarrow> real option \<Rightarrow> real option \<Rightarrow> error + real" where
  "Line_call l xo yo =
     (case (xo, yo) of
        (Some x, None) \<Rightarrow>
          if ln_b l = 0 then Inr (- ln_a l * x - ln_c l)
          else Inr ((- ln_a l * x - ln_c l) / ln_b l)
      | (None, Some y) \<Rightarrow>
          if ln_a l = 0 then Inr (- ln_b l * y - ln_c l)
          else Inr ((- ln_b l * y - ln_c l) / ln_a l)
      | _ \<Rightarrow> Inl GeometryException)"

text \<open>\<open>Line.intersect\<close>.\<close>

definition Line_intersect :: "Line \<Rightarrow> Line \<Rightarrow> error + shape option" where
  "Line_intersect l other =
     (let denom = ln_b l * ln_a other - ln_a l * ln_b other in
      if denom = 0 then
        (if Line_intercept l \<noteq> Line_intercept other then Inr None
         else Inr (Some (IsLine \<lparr>ln_a = ln_a l, ln_b = ln_b l, ln_c = ln_c l\<rparr>)))
      else
        (let x = (ln_c l * ln_b other - ln_b l * ln_c other) / denom in
         bind_err
           (if Line_y l \<noteq> None then Line_call l (Some x) None
            else Line_call other (Some x) None)
           (\<lambda>y. Inr (Some (IsPoint \<lparr>pt_x = x, pt_y = y\<rparr>)))))"

text \<open>The constructors \<open>vline\<close>, \<open>hline\<close>, \<open>from_slope_intercept_form\<close>,
  \<open>from_point_slope_form\<close> and \<open>from_points\<close>.\<close>

definition vline :: "real \<Rightarrow> Line" where
  "vline x = \<lparr>ln_a = 1, ln_b = 0, ln_c = - x\<rparr>"

definition hline :: "real \<Rightarrow> Line" where
  "hline y = \<lparr>ln_a = 0, ln_b = 0, ln_c = y\<rparr>"

definition from_slope_intercept_form :: "real \<Rightarrow> real \<Rightarrow> Line" where
  "from_slope_intercept_form slope intercept = \<lparr>ln_a = slope, ln_b = - 1, ln_c = intercept\<rparr>"

definition from_point_slope_form :: "Point \<Rightarrow> real \<Rightarrow> Line" where
  "from_point_slope_form point slope =
     \<lparr>ln_a = slope, ln_b = - 1, ln_c = pt_y point - slope * pt_x point\<rparr>"

definition from_points :: "Point \<Rightarrow> Point \<Rightarrow> error + Line" where
  "from_points a b =
     (if pt_x a = pt_x b then Inr (vline (pt_x a))
      else bind_err (gradient a b) (\<lambda>m. Inr (from_point_slope_form a m)))"

section \<open>Segments\<close>

text \<open>\<open>Segment.midpoint\<close>: \<open>Point(*midpoint(*self))\<close>; iterating a segment
  gives its two points.\<close>

definition Segment_midpoint :: "Segment \<Rightarrow> error + Point" where
  "Segment_midpoint s = Point_of_tuple (midpoint [seg_A s, seg_B s])"

text \<open>\<open>Segment.perpendicular\<close>: the vertical line when the two points have the same
  \<open>y\<close>, otherwise the line of slope \<open>-1 / gradient(*self)\<close>.\<close>

definition Segment_perpendicular :: "Segment \<Rightarrow> Point \<Rightarrow> error + Line" where
  "Segment_perpendicular s other =
     (let denom = pt_y (seg_A s) - pt_y (seg_B s) in
      if denom = 0 then Inr (vline (pt_x other))
      else bind_err (gradient (seg_A s) (seg_B s)) (\<lambda>g.
           bind_err (py_div (- 1) g) (\<lambda>m.
           Inr (from_point_slope_form other m))))"

definition Segment_perpendicular_bisector :: "Segment \<Rightarrow> error + Line" where
  "Segment_perpendicular_bisector s =
     bind_err (Segment_midpoint s) (\<lambda>m. Segment_perpendicular s m)"

section \<open>Polygons\<close>

text \<open>
  A polygon is the tuple of its vertices, \<open>unpack(self)\<close>; the letters that label
  the fields play no part in any computation.
\<close>

type_synonym Polygon = "Point list"

text \<open>\<open>segments\<close>: \<open>map(Segment, points, points[1:] + points)\<close>, which stops with
  the shorter argument.\<close>

definition segments :: "Polygon \<Rightarrow> Segment list" where
  "segments points =
     map (\<lambda>(p, q). \<lparr>seg_A = p, seg_B = q\<rparr>) (zip points (tl points @ points))"

definition perpendicular_bisectors :: "Polygon \<Rightarrow> error + Line list" where
  "perpendicular_bisectors points =
     collect (map Segment_perpendicular_bisector (segments points))"

text \<open>\<open>perpendicular_heights\<close>:
  \<open>[s.perpendicular(p) for p, s in zip(unpack(self), segments[1:] + segments)]\<close>.\<close>

definition perpendicular_heights :: "Polygon \<Rightarrow> error + Line list" where
  "perpendicular_heights points =
     (let segs = segments points in
      collect (map (\<lambda>(p, s). Segment_perpendicular s p) (zip points (tl segs @ segs))))"

definition centroid :: "Polygon \<Rightarrow> error + Point" where
  "centroid points = Point_of_tuple (midpoint points)"

text \<open>\<open>a, b = lines[:2]\<close> followed by \<open>a & b\<close>: unpacking fails unless the slice
  has two elements.\<close>

definition first_two_intersect :: "Line list \<Rightarrow> error + shape option" where
  "first_two_intersect ls =
     (case take 2 ls of [a, b] \<Rightarrow> Line_intersect a b | _ \<Rightarrow> Inl ValueError)"

definition circumcenter :: "Polygon \<Rightarrow> error + shape option" where
  "circumcenter points =
     (if length points \<noteq> 3 then Inl AssertionError
      else bind_err (perpendicular_bisectors points) first_two_intersect)"

definition orthocenter :: "Polygon \<Rightarrow> error + shape option" where
  "orthocenter points =
     (if length points \<noteq> 3 then Inl AssertionError
      else bind_err (perpendicular_heights points) first_two_intersect)"

text \<open>\<open>euler\<close>: \<open>Line.from_points(self.circumcenter(), self.centroid())\<close>. Both
  arguments are evaluated first. \<open>from_points\<close> reads \<open>a.x\<close>: \<open>None\<close> has no
  such attribute, and on a \<open>Line\<close> it is the bound method \<open>x\<close>, which is equal to
  no number, so that \<open>gradient\<close> then fails to unpack the three coefficients into two
  names.\<close>

definition euler :: "Polygon \<Rightarrow> error + Line" where
  "euler points =
     (if length points \<noteq> 3 then Inl AssertionError
      else bind_err (circumcenter points) (\<lambda>cc.
           bind_err (centroid points) (\<lambda>g.
             case cc of
               Some (IsPoint p) \<Rightarrow> from_points p g
             | None \<Rightarrow> Inl AttributeError
             | Some (IsLine _) \<Rightarrow> Inl ValueError)))"

section \<open>Geometric notions for the statements\<close>

text \<open>
  The properties below speak of a line through a point, of a line perpendicular to a
  segment and of a vertical segment. A point is on a line when it satisfies the equation
  of the line exactly. A line \<open>a*x + b*y + c = 0\<close> is perpendicular to a segment
  when its normal \<open>(a, b)\<close> is not zero and is parallel to the direction of the
  segment. A segment is vertical when its end points have the same \<open>x\<close> and
  different \<open>y\<close>.
\<close>

definition on_line :: "Line \<Rightarrow> Point \<Rightarrow> bool" where
  "on_line l q \<longleftrightarrow> ln_a l * pt_x q + ln_b l * pt_y q + ln_c l = 0"

definition perpendicular_to :: "Line \<Rightarrow> Segment \<Rightarrow> bool" where
  "perpendicular_to l s \<longleftrightarrow>
     \<not> (ln_a l = 0 \<and> ln_b l = 0)
     \<and> ln_a l * (pt_y (seg_A s) - pt_y (seg_B s)) = ln_b l * (pt_x (seg_A s) - pt_x (seg_B s))"

definition vertical :: "Segment \<Rightarrow> bool" where
  "vertical s \<longleftrightarrow> pt_x (seg_A s) = pt_x (seg_B s) \<and> pt_y (seg_A s) \<noteq> pt_y (seg_B s)"

section \<open>Double arithmetic\<close>

text \<open>
  Python's \<open>float\<close> is the IEEE double: every arithmetic operation returns the
  double nearest to the exact result, ties going to the even significand. The function
  \<open>binary64\<close> is that rounding, for a significand of 53 bits: \<open>ulp x\<close> is the
  power of two that brings \<open>\<bar>x\<bar>\<close> between \<open>2^52\<close> and \<open>2^53\<close>, and
  \<open>rne\<close> rounds the scaled value to the nearest integer, a tie to the even one.
  The range of the exponent is not bounded: overflow beyond \<open>1.8e308\<close> and the loss
  of precision below \<open>2.2e-308\<close> are outside the model. A Python \<open>int\<close> of
  magnitude below \<open>2^53\<close> is the double of the same value, and arithmetic on such
  integers whose results stay below \<open>2^53\<close> is exact also as arithmetic on doubles.
\<close>

function ulp :: "real \<Rightarrow> real" where
  "ulp x =
     (if x = 0 then 1
      else if 9007199254740992 \<le> \<bar>x\<bar> then 2 * ulp (x / 2)
      else if \<bar>x\<bar> < 4503599627370496 then ulp (2 * x) / 2
      else 1)"
  by pat_completeness auto
termination
proof (relation "measure (\<lambda>x. nat \<bar>\<lfloor>log 2 \<bar>x\<bar>\<rfloor> - 52\<bar>)")
  show "wf (measure (\<lambda>x. nat \<bar>\<lfloor>log 2 \<bar>x\<bar>\<rfloor> - 52\<bar>))" by simp
next
  fix x :: real
  assume x: "x \<noteq> 0" and big: "9007199254740992 \<le> \<bar>x\<bar>"
  have "log 2 \<bar>x / 2\<bar> = log 2 \<bar>x\<bar> - 1"
    using x by (simp add: log_divide)
  then have half: "\<lfloor>log 2 \<bar>x / 2\<bar>\<rfloor> = \<lfloor>log 2 \<bar>x\<bar>\<rfloor> - 1" by simp
  have "(2::real) ^ 53 = 9007199254740992" by simp
  then have "log 2 (2 ^ 53) \<le> log 2 \<bar>x\<bar>"
    using big by (subst log_le_cancel_iff) simp_all
  then have "53 \<le> log 2 \<bar>x\<bar>"
    by (simp add: log_nat_power del: power_numeral)
  then have "53 \<le> \<lfloor>log 2 \<bar>x\<bar>\<rfloor>" by (simp add: le_floor_iff)
  with half show "(x / 2, x) \<in> measure (\<lambda>x. nat \<bar>\<lfloor>log 2 \<bar>x\<bar>\<rfloor> - 52\<bar>)"
    by simp
next
  fix x :: real
  assume x: "x \<noteq> 0" and small: "\<bar>x\<bar> < 4503599627370496"
  have "log 2 \<bar>2 * x\<bar> = log 2 \<bar>x\<bar> + 1"
    using x by (simp add: log_mult abs_mult)
  then have twice: "\<lfloor>log 2 \<bar>2 * x\<bar>\<rfloor> = \<lfloor>log 2 \<bar>x\<bar>\<rfloor> + 1" by simp
  have "(2::real) ^ 52 = 4503599627370496" by simp
  then have "log 2 \<bar>x\<bar> < log 2 (2 ^ 52)"
    using x small by (subst log_less_cancel_iff) simp_all
  then have "log 2 \<bar>x\<bar> < 52"
    by (simp add: log_nat_power del: power_numeral)
  then have "\<lfloor>log 2 \<bar>x\<bar>\<rfloor> < 52" by (simp add: floor_less_iff)
  with twice show "(2 * x, x) \<in> measure (\<lambda>x. nat \<bar>\<lfloor>log 2 \<bar>x\<bar>\<rfloor> - 52\<bar>)"
    by simp
qed

definition rne :: "real \<Rightarrow> int" where
  "rne y =
     (let f = \<lfloor>y\<rfloor>; d = y - of_int f in
      if d < 1 / 2 then f
      else if 1 / 2 < d then f + 1
      else if even f then f else f + 1)"

definition binary64 :: "real \<Rightarrow> real" where
  "binary64 x = of_int (rne (x / ulp x)) * ulp x"

text \<open>
  The functions of the module once more, with the rounding \<open>r\<close> of the arithmetic as a
  parameter, applied to the result of every addition, subtraction, multiplication and
  division in the order in which Python evaluates them. Negation is exact. With
  \<open>binary64\<close> for \<open>r\<close> they compute as the program does on doubles; with the
  identity for \<open>r\<close> they are the functions on exact reals above.
  \<open>statistics.mean\<close> adds up exactly and rounds once.
\<close>


definition py_div_fp :: "(real \<Rightarrow> real) \<Rightarrow> real \<Rightarrow> real \<Rightarrow> error + real" where
  "py_div_fp r p q = (if q = 0 then Inl ZeroDivisionError else Inr (r (p / q)))"




text \<open>The sum \<open>self.a * point.x + self.b * point.y + self.c\<close> of which
  \<open>__contains__\<close> takes the absolute value, added up from the left.\<close>

definition residual_fp :: "(real \<Rightarrow> real) \<Rightarrow> Line \<Rightarrow> Point \<Rightarrow> real" where
  "residual_fp r l point =
     r (r (r (ln_a l * pt_x point) + r (ln_b l * pt_y point)) + ln_c l)"



definition Line_slope_fp :: "(real \<Rightarrow> real) \<Rightarrow> Line \<Rightarrow> number" where
  "Line_slope_fp r l =
     (case py_div_fp r (- ln_a l) (ln_b l) of Inr v \<Rightarrow> Fin v | Inl _ \<Rightarrow> Inf)"

definition Line_intercept_fp :: "(real \<Rightarrow> real) \<Rightarrow> Line \<Rightarrow> number" where
  "Line_intercept_fp r l =
     (case py_div_fp r (- ln_c l) (ln_b l) of Inr v \<Rightarrow> Fin v | Inl _ \<Rightarrow> Inf)"

definition Line_eq_fp :: "(real \<Rightarrow> real) \<Rightarrow> Line \<Rightarrow> Line \<Rightarrow> bool" where
  "Line_eq_fp r l other \<longleftrightarrow>
     Line_slope_fp r l = Line_slope_fp r other
     \<and> Line_intercept_fp r l = Line_intercept_fp r other"















section \<open>Raising and sequencing\<close>

lemma bind_err_simps [simp]:
  "bind_err (Inl e) f = Inl e" "bind_err (Inr v) f = f v"
  by (simp_all add: bind_err_def)

section \<open>The line constructors\<close>

text \<open>
  Claim C5. \<open>vline(x)\<close> is the triple \<open>(1, 0, -x)\<close> and \<open>hline(y)\<close> is the
  triple \<open>(0, 0, y)\<close>: \<open>hline\<close> leaves \<open>b\<close> at \<open>0\<close>, so it is not the mirror
  image \<open>(0, 1, -y)\<close> of \<open>vline\<close>.
\<close>

theorem vline_hline_coefficients:
  "vline x = \<lparr>ln_a = 1, ln_b = 0, ln_c = - x\<rparr>
   \<and> hline y = \<lparr>ln_a = 0, ln_b = 0, ln_c = y\<rparr>
   \<and> ln_b (hline y) = 0
   \<and> hline y \<noteq> \<lparr>ln_a = 0, ln_b = 1, ln_c = - y\<rparr>"
  by (simp add: vline_def hline_def)

text \<open>
  In exact arithmetic the line that \<open>from_points(p, q)\<close> returns contains \<open>p\<close> and
  \<open>q\<close>: it is the vertical line \<open>x = p.x\<close> when the two abscissas agree, and
  the line through \<open>p\<close> of slope \<open>(p.y - q.y) / (p.x - q.x)\<close> otherwise. The
  construction never raises, and \<open>p \<noteq> q\<close> is not needed.
\<close>

lemma from_points_contains_exact:
  "\<exists>l. from_points p q = Inr l \<and> Line_contains l p \<and> Line_contains l q
       \<and> l = (if pt_x p = pt_x q then vline (pt_x p)
              else from_point_slope_form p ((pt_y p - pt_y q) / (pt_x p - pt_x q)))"
proof (cases "pt_x p = pt_x q")
  case True
  then show ?thesis
    by (simp add: from_points_def vline_def Line_contains_def EPSILON_def)
next
  case False
  then have "(pt_y p - pt_y q) / (pt_x p - pt_x q) * pt_x q - pt_y q
               + (pt_y p - (pt_y p - pt_y q) / (pt_x p - pt_x q) * pt_x p) = 0"
    by (simp add: field_simps)
  with False show ?thesis
    by (simp add: from_points_def gradient_def py_div_def from_point_slope_form_def
        Line_contains_def EPSILON_def)
qed

section \<open>Equality of lines\<close>

text \<open>
  In exact arithmetic, multiplying the three coefficients of a line by a scalar \<open>k \<noteq> 0\<close>
  gives a line that \<open>__eq__\<close> holds equal to the first: slope and intercept are
  quotients from which \<open>k\<close> cancels, and both are infinite on either side when
  \<open>b = 0\<close>.
\<close>

lemma scaled_line_eq_exact:
  "k \<noteq> 0 \<Longrightarrow>
   Line_eq \<lparr>ln_a = k * a, ln_b = k * b, ln_c = k * c\<rparr> \<lparr>ln_a = a, ln_b = b, ln_c = c\<rparr>"
  by (simp add: Line_eq_def Line_slope_def Line_intercept_def py_div_def)

text \<open>
  Claim C10. Two vertical lines \<open>(a1, 0, c1)\<close> and \<open>(a2, 0, c2)\<close> both have
  slope and intercept infinity, so \<open>__eq__\<close> holds them equal whatever \<open>c1\<close> and
  \<open>c2\<close> are, and \<open>intersect\<close> answers with the first line, not with
  \<open>None\<close>.
\<close>

theorem vertical_lines_all_equal:
  "Line_slope \<lparr>ln_a = a1, ln_b = 0, ln_c = c1\<rparr> = Inf
   \<and> Line_intercept \<lparr>ln_a = a1, ln_b = 0, ln_c = c1\<rparr> = Inf
   \<and> Line_eq \<lparr>ln_a = a1, ln_b = 0, ln_c = c1\<rparr> \<lparr>ln_a = a2, ln_b = 0, ln_c = c2\<rparr>
   \<and> Line_intersect \<lparr>ln_a = a1, ln_b = 0, ln_c = c1\<rparr> \<lparr>ln_a = a2, ln_b = 0, ln_c = c2\<rparr>
       = Inr (Some (IsLine \<lparr>ln_a = a1, ln_b = 0, ln_c = c1\<rparr>))"
  by (simp add: Line_eq_def Line_slope_def Line_intercept_def py_div_def Line_intersect_def)

text \<open>The vertical lines \<open>x = 1\<close> and \<open>x = 2\<close> cross the x axis at different
  points and are equal for \<open>__eq__\<close>.\<close>

lemma vertical_lines_example:
  "Line_x (vline 1) = Some \<lparr>pt_x = 1, pt_y = 0\<rparr>
   \<and> Line_x (vline 2) = Some \<lparr>pt_x = 2, pt_y = 0\<rparr>
   \<and> Line_eq (vline 1) (vline 2)
   \<and> Line_intersect (vline 1) (vline 2) = Inr (Some (IsLine (vline 1)))"
  by (simp add: Line_x_def vline_def Line_eq_def Line_slope_def Line_intercept_def py_div_def
      Line_intersect_def)

section \<open>Evaluating a line\<close>

text \<open>
  Claim C7, as amended. \<open>__call__\<close> raises \<open>GeometryException\<close> exactly when
  both or neither of \<open>x\<close> and \<open>y\<close> are given. Given \<open>x\<close> alone it returns
  \<open>(-a*x - c) / b\<close>, which solves \<open>a*x + b*y + c = 0\<close> for \<open>y\<close>, when
  \<open>b \<noteq> 0\<close>, and \<open>-a*x - c\<close> when \<open>b = 0\<close>; given \<open>y\<close> alone it returns
  \<open>(-b*y - c) / a\<close>, which solves the equation for \<open>x\<close>, when \<open>a \<noteq> 0\<close>,
  and \<open>-b*y - c\<close> when \<open>a = 0\<close>.
\<close>

theorem call_argument_check:
  "Line_call l None None = Inl GeometryException
   \<and> Line_call l (Some x) (Some y) = Inl GeometryException
   \<and> Line_call l (Some x) None
       = Inr (if ln_b l = 0 then - ln_a l * x - ln_c l else (- ln_a l * x - ln_c l) / ln_b l)
   \<and> Line_call l None (Some y)
       = Inr (if ln_a l = 0 then - ln_b l * y - ln_c l else (- ln_b l * y - ln_c l) / ln_a l)
   \<and> (ln_b l \<noteq> 0 \<longrightarrow>
        (\<exists>v. Line_call l (Some x) None = Inr v \<and> ln_a l * x + ln_b l * v + ln_c l = 0))
   \<and> (ln_a l \<noteq> 0 \<longrightarrow>
        (\<exists>v. Line_call l None (Some y) = Inr v \<and> ln_a l * v + ln_b l * y + ln_c l = 0))"
  by (simp add: Line_call_def)

theorem call_argument_check_witness:
  "ln_b \<lparr>ln_a = 3, ln_b = - 1, ln_c = 2\<rparr> \<noteq> 0
   \<and> ln_a \<lparr>ln_a = 3, ln_b = - 1, ln_c = 2\<rparr> \<noteq> 0
   \<and> Line_call \<lparr>ln_a = 3, ln_b = - 1, ln_c = 2\<rparr> (Some 2) None = Inr 8
   \<and> Line_call \<lparr>ln_a = 3, ln_b = - 1, ln_c = 2\<rparr> None (Some 8) = Inr 2
   \<and> Line_call \<lparr>ln_a = 3, ln_b = - 1, ln_c = 2\<rparr> (Some 2) (Some 8) = Inl GeometryException
   \<and> Line_call \<lparr>ln_a = 3, ln_b = - 1, ln_c = 2\<rparr> None None = Inl GeometryException"
  using call_argument_check [of "\<lparr>ln_a = 3, ln_b = - 1, ln_c = 2\<rparr>" 2 8]
  by simp

text \<open>
  The claim as it was stated fails on a vertical line: for \<open>x = 1\<close> on the line
  \<open>(1, 0, 0)\<close> the call returns \<open>-1\<close>, and \<open>(1, -1)\<close> does not satisfy the
  equation of the line.
\<close>

theorem call_vertical_counterexample:
  "Line_call \<lparr>ln_a = 1, ln_b = 0, ln_c = 0\<rparr> (Some 1) None = Inr (- 1)
   \<and> ln_a \<lparr>ln_a = 1, ln_b = 0, ln_c = 0\<rparr> * 1 + ln_b \<lparr>ln_a = 1, ln_b = 0, ln_c = 0\<rparr> * (- 1)
       + ln_c \<lparr>ln_a = 1, ln_b = 0, ln_c = 0\<rparr> \<noteq> (0::real)"
  by (simp add: Line_call_def)

section \<open>Intersection of two lines\<close>

text \<open>With \<open>x\<close> from Cramer's rule and \<open>y\<close> from the first line, the point is
  on the second line.\<close>

lemma cramer_second_line:
  fixes a1 b1 c1 a2 b2 c2 :: real
  assumes d: "b1 * a2 - a1 * b2 \<noteq> 0" and b1: "b1 \<noteq> 0"
  defines "x \<equiv> (c1 * b2 - b1 * c2) / (b1 * a2 - a1 * b2)"
  shows "a2 * x + b2 * ((- a1 * x - c1) / b1) + c2 = 0"
proof -
  have "b1 * (a2 * x + b2 * ((- a1 * x - c1) / b1) + c2)
          = (b1 * a2 - a1 * b2) * x - b2 * c1 + b1 * c2"
    using b1 by (simp add: field_simps)
  also have "(b1 * a2 - a1 * b2) * x = c1 * b2 - b1 * c2"
    using d by (simp add: x_def)
  finally have "b1 * (a2 * x + b2 * ((- a1 * x - c1) / b1) + c2) = 0"
    by simp
  with b1 show ?thesis by simp
qed

text \<open>
  In exact arithmetic, when \<open>denom = b1*a2 - a1*b2\<close> is not zero, \<open>l1.intersect(l2)\<close>
  returns a point that both lines contain. Its \<open>x\<close> is
  \<open>(c1*b2 - b1*c2) / denom\<close>; its \<open>y\<close> is the value at \<open>x\<close> of \<open>l1\<close> if
  \<open>l1\<close> has a y intercept and of \<open>l2\<close> otherwise, and the line so chosen does
  have a y intercept and is satisfied exactly.
\<close>

lemma intersect_nonparallel_exact:
  assumes "ln_b l1 * ln_a l2 - ln_a l1 * ln_b l2 \<noteq> 0"
  shows "\<exists>p. Line_intersect l1 l2 = Inr (Some (IsPoint p))
           \<and> Line_contains l1 p \<and> Line_contains l2 p
           \<and> pt_x p = (ln_c l1 * ln_b l2 - ln_b l1 * ln_c l2)
                       / (ln_b l1 * ln_a l2 - ln_a l1 * ln_b l2)
           \<and> Line_y (if Line_y l1 \<noteq> None then l1 else l2) \<noteq> None
           \<and> Line_call (if Line_y l1 \<noteq> None then l1 else l2) (Some (pt_x p)) None = Inr (pt_y p)
           \<and> ln_a (if Line_y l1 \<noteq> None then l1 else l2) * pt_x p
               + ln_b (if Line_y l1 \<noteq> None then l1 else l2) * pt_y p
               + ln_c (if Line_y l1 \<noteq> None then l1 else l2) = 0"
proof (cases "ln_b l1 = 0")
  case True
  with assms have a1: "ln_a l1 \<noteq> 0" and b2: "ln_b l2 \<noteq> 0" by auto
  show ?thesis using True a1 b2
    by (simp add: Line_intersect_def Line_y_def Line_call_def Line_contains_def EPSILON_def
        Let_def field_simps)
next
  case False
  have l2: "ln_a l2 * ((ln_c l1 * ln_b l2 - ln_b l1 * ln_c l2)
                        / (ln_b l1 * ln_a l2 - ln_a l1 * ln_b l2))
        + ln_b l2 * ((- ln_a l1 * ((ln_c l1 * ln_b l2 - ln_b l1 * ln_c l2)
                                    / (ln_b l1 * ln_a l2 - ln_a l1 * ln_b l2)) - ln_c l1)
                      / ln_b l1)
        + ln_c l2 = 0"
    using cramer_second_line [OF assms False] .
  show ?thesis using False assms l2
    by (simp add: Line_intersect_def Line_y_def Line_call_def Line_contains_def EPSILON_def
        Let_def)
qed



section \<open>Perpendiculars of a segment\<close>

text \<open>
  Claim C9. On a segment whose end points have the same \<open>x\<close> and different
  \<open>y\<close>, \<open>perpendicular\<close> raises \<open>ZeroDivisionError\<close> for every point, and so
  does \<open>perpendicular_bisector\<close>: the guard \<open>denom == 0\<close> looks at the difference
  of the ordinates only, and \<open>gradient\<close> divides by the difference of the abscissas.
\<close>

theorem vertical_segment_perpendicular_raises:
  assumes "pt_x (seg_A s) = pt_x (seg_B s)" and "pt_y (seg_A s) \<noteq> pt_y (seg_B s)"
  shows "Segment_perpendicular s p = Inl ZeroDivisionError
         \<and> Segment_perpendicular_bisector s = Inl ZeroDivisionError"
  using assms
  by (simp add: Segment_perpendicular_def Segment_perpendicular_bisector_def gradient_def
      py_div_def Segment_midpoint_def midpoint_def Point_of_tuple_def)

theorem vertical_segment_perpendicular_raises_witness:
  "pt_x (seg_A \<lparr>seg_A = \<lparr>pt_x = 1, pt_y = 2\<rparr>, seg_B = \<lparr>pt_x = 1, pt_y = 3\<rparr>\<rparr>)
     = pt_x (seg_B \<lparr>seg_A = \<lparr>pt_x = 1, pt_y = 2\<rparr>, seg_B = \<lparr>pt_x = 1, pt_y = 3\<rparr>\<rparr>)
   \<and> pt_y (seg_A \<lparr>seg_A = \<lparr>pt_x = 1, pt_y = 2\<rparr>, seg_B = \<lparr>pt_x = 1, pt_y = 3\<rparr>\<rparr>)
     \<noteq> pt_y (seg_B \<lparr>seg_A = \<lparr>pt_x = 1, pt_y = 2\<rparr>, seg_B = \<lparr>pt_x = 1, pt_y = 3\<rparr>\<rparr>)
   \<and> Segment_perpendicular \<lparr>seg_A = \<lparr>pt_x = 1, pt_y = 2\<rparr>, seg_B = \<lparr>pt_x = 1, pt_y = 3\<rparr>\<rparr>
       \<lparr>pt_x = 0, pt_y = 0\<rparr> = Inl ZeroDivisionError
   \<and> Segment_perpendicular_bisector \<lparr>seg_A = \<lparr>pt_x = 1, pt_y = 2\<rparr>, seg_B = \<lparr>pt_x = 1, pt_y = 3\<rparr>\<rparr>
       = Inl ZeroDivisionError"
  using vertical_segment_perpendicular_raises
    [of "\<lparr>seg_A = \<lparr>pt_x = 1, pt_y = 2\<rparr>, seg_B = \<lparr>pt_x = 1, pt_y = 3\<rparr>\<rparr>" "\<lparr>pt_x = 0, pt_y = 0\<rparr>"]
  by simp

text \<open>The guard of \<open>perpendicular\<close> serves the segments whose end points have the
  same \<open>y\<close>.\<close>

lemma horizontal_segment_perpendicular:
  assumes "pt_y (seg_A s) = pt_y (seg_B s)"
  shows "Segment_perpendicular s p = Inr (vline (pt_x p))"
  using assms by (simp add: Segment_perpendicular_def)

section \<open>Heights of a polygon\<close>

lemma on_line_contains: "on_line l q \<Longrightarrow> Line_contains l q"
  by (simp add: on_line_def Line_contains_def EPSILON_def)

lemma collect_map_Inr:
  "collect (map f xs) = Inr vs \<longleftrightarrow> list_all2 (\<lambda>x v. f x = Inr v) xs vs"
proof (induction xs arbitrary: vs)
  case Nil
  then show ?case by auto
next
  case (Cons x xs)
  show ?case
  proof (cases "f x")
    case (Inl e)
    then show ?thesis by (cases vs) auto
  next
    case fx: (Inr v)
    show ?thesis
    proof (cases "collect (map f xs)")
      case (Inl e)
      then have "\<not> list_all2 (\<lambda>x v. f x = Inr v) xs ws" for ws
        using Cons.IH [of ws] by simp
      with Inl fx show ?thesis by (cases vs) auto
    next
      case (Inr ws)
      then have ws: "list_all2 (\<lambda>x v. f x = Inr v) xs us \<longleftrightarrow> us = ws" for us
        using Cons.IH [of us] by auto
      with Inr fx show ?thesis by (cases vs) auto
    qed
  qed
qed

lemma collect_map_nth:
  assumes "collect (map f xs) = Inr vs"
  shows "length vs = length xs" and "i < length xs \<Longrightarrow> f (xs ! i) = Inr (vs ! i)"
  using assms by (simp_all add: collect_map_Inr list_all2_conv_all_nth)

lemma collect_map_total:
  assumes "\<forall>x \<in> set xs. \<exists>v. f x = Inr v"
  shows "\<exists>vs. collect (map f xs) = Inr vs"
  using assms by (induction xs) auto

lemma collect_map_error:
  assumes "collect (map f xs) = Inl e"
  shows "\<exists>x \<in> set xs. f x = Inl e"
  using assms by (induction xs) (auto split: sum.splits)

text \<open>The list \<open>xs[1:] + xs\<close> holds at position \<open>i\<close> the cyclic successor of
  \<open>xs[i]\<close>.\<close>

lemma nth_tl_append_self:
  assumes "i < length xs"
  shows "(tl xs @ xs) ! i = xs ! (Suc i mod length xs)"
proof (cases "Suc i < length xs")
  case True
  then have "i < length (tl xs)" by simp
  then show ?thesis using True by (simp add: nth_append nth_tl)
next
  case False
  with assms have "Suc i = length xs" by simp
  then show ?thesis using assms by (auto simp add: nth_append)
qed

lemma length_segments: "length (segments points) = length points"
  by (cases points) (simp_all add: segments_def)

lemma nth_segments:
  assumes "i < length points"
  shows "segments points ! i = \<lparr>seg_A = points ! i, seg_B = points ! (Suc i mod length points)\<rparr>"
proof -
  have "i < length (zip points (tl points @ points))"
    using assms by (cases points) simp_all
  then show ?thesis using assms
    by (simp add: segments_def nth_tl_append_self)
qed

lemma Segment_perpendicular_Inr:
  assumes "Segment_perpendicular s p = Inr l"
  shows "on_line l p" and "perpendicular_to l s" and "\<not> vertical s"
  using assms
  by (auto simp add: Segment_perpendicular_def on_line_def perpendicular_to_def vertical_def
      Let_def vline_def gradient_def py_div_def from_point_slope_form_def field_simps
      split: if_splits)

lemma Segment_perpendicular_total:
  assumes "\<not> vertical s"
  shows "\<exists>l. Segment_perpendicular s p = Inr l"
  using assms
  by (auto simp add: Segment_perpendicular_def vertical_def Let_def gradient_def py_div_def)

lemma Segment_perpendicular_Inl:
  assumes "Segment_perpendicular s p = Inl e"
  shows "vertical s \<and> e = ZeroDivisionError"
  using assms
  by (auto simp add: Segment_perpendicular_def vertical_def Let_def gradient_def py_div_def
      split: if_splits)

text \<open>The triangle of the doctests, \<open>(2, 12), (0, 0), (10, 0)\<close>.\<close>

lemma doctest_segments:
  "segments [\<lparr>pt_x = 2, pt_y = 12\<rparr>, \<lparr>pt_x = 0, pt_y = 0\<rparr>, \<lparr>pt_x = 10, pt_y = 0\<rparr>]
  = [\<lparr>seg_A = \<lparr>pt_x = 2, pt_y = 12\<rparr>, seg_B = \<lparr>pt_x = 0, pt_y = 0\<rparr>\<rparr>,
     \<lparr>seg_A = \<lparr>pt_x = 0, pt_y = 0\<rparr>, seg_B = \<lparr>pt_x = 10, pt_y = 0\<rparr>\<rparr>,
     \<lparr>seg_A = \<lparr>pt_x = 10, pt_y = 0\<rparr>, seg_B = \<lparr>pt_x = 2, pt_y = 12\<rparr>\<rparr>]"
  by (simp add: segments_def)

lemma doctest_height_A:
  "Segment_perpendicular \<lparr>seg_A = \<lparr>pt_x = 0, pt_y = 0\<rparr>, seg_B = \<lparr>pt_x = 10, pt_y = 0\<rparr>\<rparr>
     \<lparr>pt_x = 2, pt_y = 12\<rparr>
   = Inr \<lparr>ln_a = 1, ln_b = 0, ln_c = - 2\<rparr>"
  by (simp add: Segment_perpendicular_def vline_def)

lemma doctest_height_B:
  "Segment_perpendicular \<lparr>seg_A = \<lparr>pt_x = 10, pt_y = 0\<rparr>, seg_B = \<lparr>pt_x = 2, pt_y = 12\<rparr>\<rparr>
     \<lparr>pt_x = 0, pt_y = 0\<rparr>
   = Inr \<lparr>ln_a = 2 / 3, ln_b = - 1, ln_c = 0\<rparr>"
  by (simp add: Segment_perpendicular_def gradient_def py_div_def from_point_slope_form_def)

lemma doctest_height_C:
  "Segment_perpendicular \<lparr>seg_A = \<lparr>pt_x = 2, pt_y = 12\<rparr>, seg_B = \<lparr>pt_x = 0, pt_y = 0\<rparr>\<rparr>
     \<lparr>pt_x = 10, pt_y = 0\<rparr>
   = Inr \<lparr>ln_a = - (1 / 6), ln_b = - 1, ln_c = 5 / 3\<rparr>"
  by (simp add: Segment_perpendicular_def gradient_def py_div_def from_point_slope_form_def)

lemma doctest_heights:
  "perpendicular_heights [\<lparr>pt_x = 2, pt_y = 12\<rparr>, \<lparr>pt_x = 0, pt_y = 0\<rparr>, \<lparr>pt_x = 10, pt_y = 0\<rparr>]
     = Inr [\<lparr>ln_a = 1, ln_b = 0, ln_c = - 2\<rparr>,
            \<lparr>ln_a = 2 / 3, ln_b = - 1, ln_c = 0\<rparr>,
            \<lparr>ln_a = - (1 / 6), ln_b = - 1, ln_c = 5 / 3\<rparr>]"
  by (simp add: perpendicular_heights_def doctest_segments doctest_height_A doctest_height_B
      doctest_height_C)

text \<open>
  Claim C4, as amended. On a polygon none of whose edges is vertical,
  \<open>perpendicular_heights\<close> returns one line per vertex, as many as there are edges.
  Edge \<open>i\<close> runs from vertex \<open>i\<close> to vertex \<open>i + 1\<close>, indices taken modulo
  the number of vertices. Line \<open>i\<close> passes through vertex \<open>i\<close> and is
  perpendicular to edge \<open>i + 1\<close>: the construction pairs a vertex with the edge one
  position ahead of it, which in a triangle is the edge opposite the vertex.
\<close>

theorem perpendicular_heights_pairing:
  assumes "\<forall>s \<in> set (segments points). \<not> vertical s"
  shows "\<exists>ls. perpendicular_heights points = Inr ls \<and> length ls = length points
           \<and> (\<forall>i < length points.
                 segments points ! i
                   = \<lparr>seg_A = points ! i, seg_B = points ! (Suc i mod length points)\<rparr>
                 \<and> on_line (ls ! i) (points ! i)
                 \<and> Line_contains (ls ! i) (points ! i)
                 \<and> perpendicular_to (ls ! i) (segments points ! (Suc i mod length points)))"
proof -
  let ?n = "length points"
  let ?segs = "segments points"
  let ?pairs = "zip points (tl ?segs @ ?segs)"
  let ?f = "\<lambda>(p, s). Segment_perpendicular s p"
  have len: "length ?pairs = ?n"
    by (cases points) (simp_all add: length_segments)
  have pair: "?pairs ! i = (points ! i, ?segs ! (Suc i mod ?n))" if "i < ?n" for i
    using that len by (simp add: nth_tl_append_self length_segments)
  have "\<forall>x \<in> set ?pairs. \<exists>v. ?f x = Inr v"
  proof
    fix x assume "x \<in> set ?pairs"
    obtain p s where x: "x = (p, s)" by (cases x)
    with \<open>x \<in> set ?pairs\<close> have "s \<in> set (tl ?segs @ ?segs)"
      by (auto dest: set_zip_rightD)
    then have "s \<in> set ?segs"
      by (cases ?segs) auto
    with assms have "\<not> vertical s" by blast
    then show "\<exists>v. ?f x = Inr v"
      using Segment_perpendicular_total [of s p] x by simp
  qed
  then obtain ls where ls: "collect (map ?f ?pairs) = Inr ls"
    using collect_map_total by blast
  have ph: "perpendicular_heights points = Inr ls"
    using ls by (simp add: perpendicular_heights_def Let_def)
  have l: "length ls = ?n"
    using collect_map_nth(1) [OF ls] len by simp
  have "segments points ! i = \<lparr>seg_A = points ! i, seg_B = points ! (Suc i mod ?n)\<rparr>
        \<and> on_line (ls ! i) (points ! i) \<and> Line_contains (ls ! i) (points ! i)
        \<and> perpendicular_to (ls ! i) (?segs ! (Suc i mod ?n))" if i: "i < ?n" for i
  proof -
    have "?f (?pairs ! i) = Inr (ls ! i)"
      using collect_map_nth(2) [OF ls] i len by simp
    then have sp: "Segment_perpendicular (?segs ! (Suc i mod ?n)) (points ! i) = Inr (ls ! i)"
      using pair [OF i] by simp
    show ?thesis
      using Segment_perpendicular_Inr(1,2) [OF sp] nth_segments [OF i] on_line_contains
      by blast
  qed
  with ph l show ?thesis by blast
qed

text \<open>
  On the triangle \<open>(2, 12), (0, 0), (10, 0)\<close> no line of the result both passes
  through vertex \<open>1\<close> and is perpendicular to edge \<open>0\<close>, as the pairing of edge
  \<open>i\<close> with vertex \<open>i + 1\<close> would have it.
\<close>

theorem perpendicular_heights_pairing_counterexample:
  "perpendicular_heights [\<lparr>pt_x = 2, pt_y = 12\<rparr>, \<lparr>pt_x = 0, pt_y = 0\<rparr>, \<lparr>pt_x = 10, pt_y = 0\<rparr>]
     = Inr [\<lparr>ln_a = 1, ln_b = 0, ln_c = - 2\<rparr>,
            \<lparr>ln_a = 2 / 3, ln_b = - 1, ln_c = 0\<rparr>,
            \<lparr>ln_a = - (1 / 6), ln_b = - 1, ln_c = 5 / 3\<rparr>]
   \<and> segments [\<lparr>pt_x = 2, pt_y = 12\<rparr>, \<lparr>pt_x = 0, pt_y = 0\<rparr>, \<lparr>pt_x = 10, pt_y = 0\<rparr>] ! 0
       = \<lparr>seg_A = \<lparr>pt_x = 2, pt_y = 12\<rparr>, seg_B = \<lparr>pt_x = 0, pt_y = 0\<rparr>\<rparr>
   \<and> \<not> Line_contains \<lparr>ln_a = 1, ln_b = 0, ln_c = - 2\<rparr> \<lparr>pt_x = 0, pt_y = 0\<rparr>
   \<and> \<not> perpendicular_to \<lparr>ln_a = 1, ln_b = 0, ln_c = - 2\<rparr>
         \<lparr>seg_A = \<lparr>pt_x = 2, pt_y = 12\<rparr>, seg_B = \<lparr>pt_x = 0, pt_y = 0\<rparr>\<rparr>
   \<and> \<not> perpendicular_to \<lparr>ln_a = 2 / 3, ln_b = - 1, ln_c = 0\<rparr>
         \<lparr>seg_A = \<lparr>pt_x = 2, pt_y = 12\<rparr>, seg_B = \<lparr>pt_x = 0, pt_y = 0\<rparr>\<rparr>
   \<and> \<not> Line_contains \<lparr>ln_a = - (1 / 6), ln_b = - 1, ln_c = 5 / 3\<rparr> \<lparr>pt_x = 0, pt_y = 0\<rparr>"
  by (simp add: doctest_heights doctest_segments Line_contains_def perpendicular_to_def
      EPSILON_def)

theorem perpendicular_heights_pairing_witness:
  "\<not> vertical \<lparr>seg_A = \<lparr>pt_x = 2, pt_y = 12\<rparr>, seg_B = \<lparr>pt_x = 0, pt_y = 0\<rparr>\<rparr>
   \<and> \<not> vertical \<lparr>seg_A = \<lparr>pt_x = 0, pt_y = 0\<rparr>, seg_B = \<lparr>pt_x = 10, pt_y = 0\<rparr>\<rparr>
   \<and> \<not> vertical \<lparr>seg_A = \<lparr>pt_x = 10, pt_y = 0\<rparr>, seg_B = \<lparr>pt_x = 2, pt_y = 12\<rparr>\<rparr>
   \<and> segments [\<lparr>pt_x = 2, pt_y = 12\<rparr>, \<lparr>pt_x = 0, pt_y = 0\<rparr>, \<lparr>pt_x = 10, pt_y = 0\<rparr>]
       = [\<lparr>seg_A = \<lparr>pt_x = 2, pt_y = 12\<rparr>, seg_B = \<lparr>pt_x = 0, pt_y = 0\<rparr>\<rparr>,
          \<lparr>seg_A = \<lparr>pt_x = 0, pt_y = 0\<rparr>, seg_B = \<lparr>pt_x = 10, pt_y = 0\<rparr>\<rparr>,
          \<lparr>seg_A = \<lparr>pt_x = 10, pt_y = 0\<rparr>, seg_B = \<lparr>pt_x = 2, pt_y = 12\<rparr>\<rparr>]
   \<and> perpendicular_heights [\<lparr>pt_x = 2, pt_y = 12\<rparr>, \<lparr>pt_x = 0, pt_y = 0\<rparr>, \<lparr>pt_x = 10, pt_y = 0\<rparr>]
     = Inr [\<lparr>ln_a = 1, ln_b = 0, ln_c = - 2\<rparr>,
            \<lparr>ln_a = 2 / 3, ln_b = - 1, ln_c = 0\<rparr>,
            \<lparr>ln_a = - (1 / 6), ln_b = - 1, ln_c = 5 / 3\<rparr>]
   \<and> perpendicular_to \<lparr>ln_a = 1, ln_b = 0, ln_c = - 2\<rparr>
         \<lparr>seg_A = \<lparr>pt_x = 0, pt_y = 0\<rparr>, seg_B = \<lparr>pt_x = 10, pt_y = 0\<rparr>\<rparr>
   \<and> on_line \<lparr>ln_a = 1, ln_b = 0, ln_c = - 2\<rparr> \<lparr>pt_x = 2, pt_y = 12\<rparr>"
proof -
  let ?T = "[\<lparr>pt_x = 2, pt_y = 12\<rparr>, \<lparr>pt_x = 0, pt_y = 0\<rparr>, \<lparr>pt_x = 10, pt_y = 0\<rparr>]"
  have h: "\<forall>s \<in> set (segments ?T). \<not> vertical s"
    by (simp add: doctest_segments vertical_def)
  from perpendicular_heights_pairing [OF h] obtain ls where
    ls: "perpendicular_heights ?T = Inr ls"
    and all: "\<forall>i < length ?T.
                 segments ?T ! i = \<lparr>seg_A = ?T ! i, seg_B = ?T ! (Suc i mod length ?T)\<rparr>
                 \<and> on_line (ls ! i) (?T ! i)
                 \<and> Line_contains (ls ! i) (?T ! i)
                 \<and> perpendicular_to (ls ! i) (segments ?T ! (Suc i mod length ?T))"
    by blast
  from ls have ls_eq: "ls = [\<lparr>ln_a = 1, ln_b = 0, ln_c = - 2\<rparr>,
            \<lparr>ln_a = 2 / 3, ln_b = - 1, ln_c = 0\<rparr>,
            \<lparr>ln_a = - (1 / 6), ln_b = - 1, ln_c = 5 / 3\<rparr>]"
    by (simp add: doctest_heights)
  have "0 < length ?T" by simp
  with all have "on_line (ls ! 0) (?T ! 0)
      \<and> perpendicular_to (ls ! 0) (segments ?T ! (Suc 0 mod length ?T))"
    by blast
  then have "on_line \<lparr>ln_a = 1, ln_b = 0, ln_c = - 2\<rparr> \<lparr>pt_x = 2, pt_y = 12\<rparr>
      \<and> perpendicular_to \<lparr>ln_a = 1, ln_b = 0, ln_c = - 2\<rparr>
         \<lparr>seg_A = \<lparr>pt_x = 0, pt_y = 0\<rparr>, seg_B = \<lparr>pt_x = 10, pt_y = 0\<rparr>\<rparr>"
    by (simp add: ls_eq doctest_segments)
  with h doctest_heights show ?thesis by (simp add: doctest_segments)
qed

text \<open>When \<open>perpendicular_heights\<close> raises, the error is \<open>ZeroDivisionError\<close>
  and the polygon has a vertical edge; the triangle \<open>(0, 0), (0, 1), (1, 0)\<close> is a case.\<close>

lemma perpendicular_heights_raises:
  assumes "perpendicular_heights points = Inl e"
  shows "e = ZeroDivisionError \<and> (\<exists>s \<in> set (segments points). vertical s)"
proof -
  let ?segs = "segments points"
  from assms obtain x where x: "x \<in> set (zip points (tl ?segs @ ?segs))"
    and e: "(\<lambda>(p, s). Segment_perpendicular s p) x = Inl e"
    using collect_map_error [of "\<lambda>(p, s). Segment_perpendicular s p"
        "zip points (tl ?segs @ ?segs)" e]
    by (auto simp add: perpendicular_heights_def Let_def)
  obtain p s where ps: "x = (p, s)" by (cases x)
  with x have "s \<in> set (tl ?segs @ ?segs)"
    by (auto dest: set_zip_rightD)
  then have "s \<in> set ?segs"
    by (cases ?segs) auto
  moreover from e ps have "vertical s \<and> e = ZeroDivisionError"
    using Segment_perpendicular_Inl [of s p e] by simp
  ultimately show ?thesis by blast
qed

lemma perpendicular_heights_vertical_edge_example:
  "perpendicular_heights [\<lparr>pt_x = 0, pt_y = 0\<rparr>, \<lparr>pt_x = 0, pt_y = 1\<rparr>, \<lparr>pt_x = 1, pt_y = 0\<rparr>]
     = Inl ZeroDivisionError"
  by (simp add: perpendicular_heights_def segments_def Segment_perpendicular_def gradient_def
      py_div_def from_point_slope_form_def)

section \<open>The Euler line of a triangle\<close>







lemma segments_triangle:
  "segments [A, B, C]
     = [\<lparr>seg_A = A, seg_B = B\<rparr>, \<lparr>seg_A = B, seg_B = C\<rparr>, \<lparr>seg_A = C, seg_B = A\<rparr>]"
  by (simp add: segments_def)

lemma first_two_intersect_Cons:
  "first_two_intersect (a # b # ls) = Line_intersect a b"
  by (simp add: first_two_intersect_def numeral_2_eq_2)



lemma centroid_triangle:
  "centroid [A, B, C]
     = Inr \<lparr>pt_x = (pt_x A + pt_x B + pt_x C) / 3, pt_y = (pt_y A + pt_y B + pt_y C) / 3\<rparr>"
  by (simp add: centroid_def midpoint_def mean_def Point_of_tuple_def add.assoc)


lemma Line_intersect_returns_point:
  assumes "ln_b l1 * ln_a l2 - ln_a l1 * ln_b l2 \<noteq> 0"
  shows "\<exists>p. Line_intersect l1 l2 = Inr (Some (IsPoint p))"
  using assms by (simp add: Line_intersect_def Line_call_def Let_def)

lemma normals_not_parallel:
  fixes a1 b1 a2 b2 dx1 dy1 dx2 dy2 :: real
  assumes "\<not> (a1 = 0 \<and> b1 = 0)" and "a1 * dy1 = b1 * dx1"
      and "\<not> (a2 = 0 \<and> b2 = 0)" and "a2 * dy2 = b2 * dx2"
      and "dx1 * dy2 - dy1 * dx2 \<noteq> 0"
  shows "b1 * a2 - a1 * b2 \<noteq> 0"
proof
  assume p: "b1 * a2 - a1 * b2 = 0"
  have "a1 * a2 * (dx1 * dy2 - dy1 * dx2) = 0"
  proof -
    have "a1 * a2 * (dx1 * dy2 - dy1 * dx2) = a1 * dx1 * (a2 * dy2) - a2 * dx2 * (a1 * dy1)"
      by (simp add: algebra_simps)
    also have "\<dots> = dx1 * dx2 * (a1 * b2 - b1 * a2)"
      unfolding assms(2,4) by (simp add: algebra_simps)
    finally show ?thesis using p by simp
  qed
  moreover have "b1 * b2 * (dx1 * dy2 - dy1 * dx2) = 0"
  proof -
    have "b1 * b2 * (dx1 * dy2 - dy1 * dx2) = (b1 * dx1) * (b2 * dy2) - (b2 * dx2) * (b1 * dy1)"
      by (simp add: algebra_simps)
    also have "\<dots> = dy1 * dy2 * (a1 * b2 - b1 * a2)"
      unfolding assms(2,4) [symmetric] by (simp add: algebra_simps)
    finally show ?thesis using p by simp
  qed
  ultimately have z: "a1 * a2 = 0" "b1 * b2 = 0"
    using assms(5) by simp_all
  from p have "b1 * a2 = a1 * b2" by simp
  with z assms(1,3) show False
    by (metis mult_eq_0_iff)
qed

text \<open>
  The two hypotheses on the centres are met by every triangle that is not flat and has
  no vertical side: two perpendicular bisectors, and two heights, are then lines that
  are not parallel, and \<open>intersect\<close> returns a point for them.
\<close>

lemma triangle_centers_return:
  assumes nv: "\<not> vertical \<lparr>seg_A = A, seg_B = B\<rparr>" "\<not> vertical \<lparr>seg_A = B, seg_B = C\<rparr>"
        "\<not> vertical \<lparr>seg_A = C, seg_B = A\<rparr>"
      and nc: "(pt_x B - pt_x A) * (pt_y C - pt_y A) - (pt_x C - pt_x A) * (pt_y B - pt_y A) \<noteq> 0"
  shows "\<exists>U H. circumcenter [A, B, C] = Inr (Some (IsPoint U))
               \<and> orthocenter [A, B, C] = Inr (Some (IsPoint H))"
proof -
  let ?AB = "\<lparr>seg_A = A, seg_B = B\<rparr>" and ?BC = "\<lparr>seg_A = B, seg_B = C\<rparr>"
    and ?CA = "\<lparr>seg_A = C, seg_B = A\<rparr>"
  have bis: "\<exists>l. Segment_perpendicular_bisector s = Inr l \<and> perpendicular_to l s"
    if "\<not> vertical s" for s
  proof -
    obtain m where m: "Segment_midpoint s = Inr m"
      by (simp add: Segment_midpoint_def midpoint_def Point_of_tuple_def)
    from Segment_perpendicular_total [OF that, of m] obtain l
      where l: "Segment_perpendicular s m = Inr l" by blast
    with m Segment_perpendicular_Inr(2) [OF l] show ?thesis
      by (auto simp add: Segment_perpendicular_bisector_def)
  qed
  from bis [OF nv(1)] bis [OF nv(2)] bis [OF nv(3)] obtain l1 l2 l3 where
    l1: "Segment_perpendicular_bisector ?AB = Inr l1" "perpendicular_to l1 ?AB" and
    l2: "Segment_perpendicular_bisector ?BC = Inr l2" "perpendicular_to l2 ?BC" and
    l3: "Segment_perpendicular_bisector ?CA = Inr l3"
    by blast
  have "(pt_x A - pt_x B) * (pt_y B - pt_y C) - (pt_y A - pt_y B) * (pt_x B - pt_x C) \<noteq> 0"
    using nc by (simp add: algebra_simps)
  with l1(2) l2(2) have "ln_b l1 * ln_a l2 - ln_a l1 * ln_b l2 \<noteq> 0"
    using normals_not_parallel
      [of "ln_a l1" "ln_b l1" "pt_y A - pt_y B" "pt_x A - pt_x B"
          "ln_a l2" "ln_b l2" "pt_y B - pt_y C" "pt_x B - pt_x C"]
    by (simp add: perpendicular_to_def)
  from Line_intersect_returns_point [OF this] obtain U
    where "Line_intersect l1 l2 = Inr (Some (IsPoint U))" by blast
  with l1(1) l2(1) l3 have cc: "circumcenter [A, B, C] = Inr (Some (IsPoint U))"
    by (simp add: circumcenter_def perpendicular_bisectors_def segments_triangle
        first_two_intersect_Cons)
  from Segment_perpendicular_total [OF nv(2), of A] Segment_perpendicular_total [OF nv(3), of B]
    Segment_perpendicular_total [OF nv(1), of C]
  obtain h1 h2 h3 where
    h1: "Segment_perpendicular ?BC A = Inr h1" and
    h2: "Segment_perpendicular ?CA B = Inr h2" and
    h3: "Segment_perpendicular ?AB C = Inr h3"
    by blast
  have "(pt_x B - pt_x C) * (pt_y C - pt_y A) - (pt_y B - pt_y C) * (pt_x C - pt_x A) \<noteq> 0"
    using nc by (simp add: algebra_simps)
  with Segment_perpendicular_Inr(2) [OF h1] Segment_perpendicular_Inr(2) [OF h2]
  have "ln_b h1 * ln_a h2 - ln_a h1 * ln_b h2 \<noteq> 0"
    using normals_not_parallel
      [of "ln_a h1" "ln_b h1" "pt_y B - pt_y C" "pt_x B - pt_x C"
          "ln_a h2" "ln_b h2" "pt_y C - pt_y A" "pt_x C - pt_x A"]
    by (simp add: perpendicular_to_def)
  from Line_intersect_returns_point [OF this] obtain H
    where "Line_intersect h1 h2 = Inr (Some (IsPoint H))" by blast
  with h1 h2 h3 have "orthocenter [A, B, C] = Inr (Some (IsPoint H))"
    by (simp add: orthocenter_def perpendicular_heights_def segments_triangle
        first_two_intersect_Cons)
  with cc show ?thesis by blast
qed


lemma doctest_bisector_AB:
  "Segment_perpendicular_bisector \<lparr>seg_A = \<lparr>pt_x = 2, pt_y = 12\<rparr>, seg_B = \<lparr>pt_x = 0, pt_y = 0\<rparr>\<rparr>
     = Inr \<lparr>ln_a = - (1 / 6), ln_b = - 1, ln_c = 37 / 6\<rparr>"
  by (simp add: Segment_perpendicular_bisector_def Segment_midpoint_def midpoint_def mean_def
      Point_of_tuple_def Segment_perpendicular_def gradient_def py_div_def
      from_point_slope_form_def)

lemma doctest_bisector_BC:
  "Segment_perpendicular_bisector \<lparr>seg_A = \<lparr>pt_x = 0, pt_y = 0\<rparr>, seg_B = \<lparr>pt_x = 10, pt_y = 0\<rparr>\<rparr>
     = Inr \<lparr>ln_a = 1, ln_b = 0, ln_c = - 5\<rparr>"
  by (simp add: Segment_perpendicular_bisector_def Segment_midpoint_def midpoint_def mean_def
      Point_of_tuple_def Segment_perpendicular_def vline_def)

lemma doctest_bisector_CA:
  "Segment_perpendicular_bisector \<lparr>seg_A = \<lparr>pt_x = 10, pt_y = 0\<rparr>, seg_B = \<lparr>pt_x = 2, pt_y = 12\<rparr>\<rparr>
     = Inr \<lparr>ln_a = 2 / 3, ln_b = - 1, ln_c = 2\<rparr>"
  by (simp add: Segment_perpendicular_bisector_def Segment_midpoint_def midpoint_def mean_def
      Point_of_tuple_def Segment_perpendicular_def gradient_def py_div_def
      from_point_slope_form_def)

lemma doctest_circumcenter:
  "circumcenter [\<lparr>pt_x = 2, pt_y = 12\<rparr>, \<lparr>pt_x = 0, pt_y = 0\<rparr>, \<lparr>pt_x = 10, pt_y = 0\<rparr>]
     = Inr (Some (IsPoint \<lparr>pt_x = 5, pt_y = 16 / 3\<rparr>))"
  by (simp add: circumcenter_def perpendicular_bisectors_def doctest_segments
      doctest_bisector_AB doctest_bisector_BC doctest_bisector_CA first_two_intersect_Cons
      Line_intersect_def Line_y_def Line_call_def Let_def)

lemma doctest_orthocenter:
  "orthocenter [\<lparr>pt_x = 2, pt_y = 12\<rparr>, \<lparr>pt_x = 0, pt_y = 0\<rparr>, \<lparr>pt_x = 10, pt_y = 0\<rparr>]
     = Inr (Some (IsPoint \<lparr>pt_x = 2, pt_y = 4 / 3\<rparr>))"
  by (simp add: orthocenter_def doctest_heights first_two_intersect_Cons
      Line_intersect_def Line_y_def Line_call_def Let_def)

lemma doctest_euler:
  "euler [\<lparr>pt_x = 2, pt_y = 12\<rparr>, \<lparr>pt_x = 0, pt_y = 0\<rparr>, \<lparr>pt_x = 10, pt_y = 0\<rparr>]
     = Inr \<lparr>ln_a = 4 / 3, ln_b = - 1, ln_c = - (4 / 3)\<rparr>"
  by (simp add: euler_def doctest_circumcenter centroid_triangle from_points_def gradient_def
      py_div_def from_point_slope_form_def)

section \<open>Rounding to the nearest double\<close>

declare ulp.simps [simp del]









lemma binary64_0: "binary64 0 = 0"
  by (simp add: binary64_def rne_def)



lemma ulp_twice:
  assumes "x \<noteq> 0"
  shows "ulp (2 * x) = 2 * ulp x"
proof (cases "\<bar>x\<bar> < 4503599627370496")
  case True
  then show ?thesis using assms by (subst (2) ulp.simps) simp
next
  case False
  then have big: "9007199254740992 \<le> \<bar>2 * x\<bar>" by simp
  have "ulp (2 * x) = 2 * ulp (2 * x / 2)"
    using big assms by (subst ulp.simps) (simp del: abs_mult abs_numeral)
  then show ?thesis by simp
qed

lemma binary64_twice: "binary64 (2 * x) = 2 * binary64 x"
proof (cases "x = 0")
  case True
  then show ?thesis by (simp add: binary64_0)
next
  case False
  then show ?thesis by (simp add: binary64_def ulp_twice)
qed

section \<open>Equality of lines on doubles\<close>

text \<open>The equations that evaluate a rounding at a given number.\<close>

lemmas b64 = binary64_def ulp.simps rne_def Let_def

lemma tenth: "binary64 (1 / 10) = 3602879701896397 / 36028797018963968"
  by (simp add: b64)

lemma scaled_coefficients:
  "binary64 (binary64 (1 / 10) * 3) = 1351079888211149 / 4503599627370496"
  "binary64 (binary64 (1 / 10) * (- 1)) = - (3602879701896397 / 36028797018963968)"
  "binary64 (binary64 (1 / 10) * 2) = 3602879701896397 / 18014398509481984"
  by (simp_all add: tenth) (simp_all add: b64)

text \<open>
  With \<open>k = 0.1\<close> the line \<open>(k*3, k*(-1), k*2)\<close> has slope
  \<open>3.0000000000000004\<close>, the line \<open>(3, -1, 2)\<close> has slope \<open>3\<close>, and
  \<open>__eq__\<close> is false.
\<close>

theorem scaled_line_eq_counterexample:
  "Line_slope_fp binary64
      \<lparr>ln_a = binary64 (binary64 (1 / 10) * 3), ln_b = binary64 (binary64 (1 / 10) * (- 1)),
       ln_c = binary64 (binary64 (1 / 10) * 2)\<rparr>
     = Fin (6755399441055745 / 2251799813685248)
   \<and> Line_slope_fp binary64 \<lparr>ln_a = 3, ln_b = - 1, ln_c = 2\<rparr> = Fin 3
   \<and> \<not> Line_eq_fp binary64
      \<lparr>ln_a = binary64 (binary64 (1 / 10) * 3), ln_b = binary64 (binary64 (1 / 10) * (- 1)),
       ln_c = binary64 (binary64 (1 / 10) * 2)\<rparr>
      \<lparr>ln_a = 3, ln_b = - 1, ln_c = 2\<rparr>"
  by (simp add: scaled_coefficients Line_eq_fp_def Line_slope_fp_def py_div_fp_def)
     (simp add: b64)

text \<open>
  Claim C6, as amended. For \<open>k \<noteq> 0\<close> whose products \<open>k*a\<close>, \<open>k*b\<close> and
  \<open>k*c\<close> are exact, that is, doubles themselves, the line \<open>(k*a, k*b, k*c)\<close>
  is equal for \<open>__eq__\<close> to the line \<open>(a, b, c)\<close>: the two slopes and the two
  intercepts are the roundings of the same quotients.
\<close>

theorem scaled_line_eq_fp:
  assumes "k \<noteq> 0"
    and "binary64 (k * a) = k * a" and "binary64 (k * b) = k * b" and "binary64 (k * c) = k * c"
  shows "Line_eq_fp binary64
           \<lparr>ln_a = binary64 (k * a), ln_b = binary64 (k * b), ln_c = binary64 (k * c)\<rparr>
           \<lparr>ln_a = a, ln_b = b, ln_c = c\<rparr>"
  using assms
  by (simp add: Line_eq_fp_def Line_slope_fp_def Line_intercept_fp_def py_div_fp_def)

theorem scaled_line_eq_fp_witness:
  "(2::real) \<noteq> 0 \<and> binary64 (2 * 3) = 2 * 3 \<and> binary64 (2 * (- 1)) = 2 * (- 1)
   \<and> binary64 (2 * 2) = 2 * 2
   \<and> Line_eq_fp binary64
        \<lparr>ln_a = binary64 (2 * 3), ln_b = binary64 (2 * (- 1)), ln_c = binary64 (2 * 2)\<rparr>
        \<lparr>ln_a = 3, ln_b = - 1, ln_c = 2\<rparr>"
proof -
  have e: "binary64 (2 * 3) = 2 * 3" "binary64 (2 * (- 1)) = 2 * (- 1)" "binary64 (2 * 2) = 2 * 2"
    by (simp_all add: b64)
  have k: "(2::real) \<noteq> 0" by simp
  from scaled_line_eq_fp [OF k e] e show ?thesis by simp
qed

section \<open>The line through two points on doubles\<close>

















section \<open>Intersection of two lines on doubles\<close>






lemma c1_residual_1:
  "residual_fp binary64 \<lparr>ln_a = 3, ln_b = - 1, ln_c = 2\<rparr>
     \<lparr>pt_x = - (8388608005033165 / 8388608), pt_y = - (3145727999790285 / 1048576)\<rparr> = 0"
  by (simp add: residual_fp_def b64)






section \<open>The Euler line on doubles\<close>














text \<open>The triangle \<open>(0, 0), (1, 3), (2, 0)\<close> on doubles.\<close>

lemma third: "binary64 (1 / 3) = 6004799503160661 / 18014398509481984"
  by (simp add: b64)

























end
